theory Spec2Isabelle
  imports Complex_Main
begin

section \<open>Data model\<close>

text \<open>
  The simulation core of the dungeon crawler: \<^verbatim>\<open>class Game\<close> (\<^verbatim>\<open>game.h\<close> and the
  file that defines its members), \<^verbatim>\<open>class Entity\<close> (\<^verbatim>\<open>entity.h\<close>) and the
  constructor of \<^verbatim>\<open>class Treasure\<close>. Coordinates, health and attack are C++
  \<^verbatim>\<open>int\<close>s; they are modelled as unbounded integers, the values of a session
  (screen-sized maps, small stat tables) staying far inside the 32-bit range.
  C++ integer division truncates towards zero and is written out as \<open>c_div\<close>.
\<close>

record Point =
  x :: int
  y :: int

record Represetiation =
  symbol :: char
  color :: int

text \<open>The fields of \<^verbatim>\<open>class Entity\<close> as \<^verbatim>\<open>entity.h\<close> declares them.\<close>

record Entity =
  position :: Point
  velocity :: Point
  health :: int
  strength :: int
  representation :: Represetiation

text \<open>
  Modelled from the spec: the bodies of the members of \<^verbatim>\<open>Entity\<close> (declared in
  \<^verbatim>\<open>entity.h\<close>, defined in a file that is not among the sources). The accessors
  return the field; \<open>isAlive\<close> is "health > 0"; \<open>move\<close> "applies an offset to
  position unconditionally"; \<open>takeDamage\<close> "subtracts from health (may go negative
  internally)". The monster species "differ only in base health/attack constants",
  so these bodies are the ones every entity runs.
\<close>

definition getPosition :: "'e Entity_scheme \<Rightarrow> Point" where
  "getPosition entity = position entity"

definition getHealth :: "'e Entity_scheme \<Rightarrow> int" where
  "getHealth entity = health entity"

definition getAttack :: "'e Entity_scheme \<Rightarrow> int" where
  "getAttack entity = strength entity"

definition isAlive :: "'e Entity_scheme \<Rightarrow> bool" where
  "isAlive entity \<longleftrightarrow> health entity > 0"

definition setPosition :: "'e Entity_scheme \<Rightarrow> Point \<Rightarrow> 'e Entity_scheme" where
  "setPosition entity p = entity\<lparr>position := p\<rparr>"

definition move :: "'e Entity_scheme \<Rightarrow> int \<Rightarrow> int \<Rightarrow> 'e Entity_scheme" where
  "move entity dx dy =
     entity\<lparr>position := \<lparr>x = x (position entity) + dx, y = y (position entity) + dy\<rparr>\<rparr>"

definition takeDamage :: "'e Entity_scheme \<Rightarrow> int \<Rightarrow> 'e Entity_scheme" where
  "takeDamage entity damage = entity\<lparr>health := health entity - damage\<rparr>"

text \<open>
  Modelled from the spec: \<^verbatim>\<open>Player\<close> ("Entity plus accumulated experience", read and
  written through \<^verbatim>\<open>getExp\<close>/\<^verbatim>\<open>setExp\<close>) and the four monster classes, whose
  headers are not among the sources. A monster is an entity tagged with its species.
\<close>

record Player = Entity +
  exp_points :: int

definition getExp :: "Player \<Rightarrow> int" where
  "getExp p = exp_points p"

definition setExp :: "Player \<Rightarrow> int \<Rightarrow> Player" where
  "setExp p e = p\<lparr>exp_points := e\<rparr>"

datatype Species = Goblin | Orc | Troll | Dragon

record Monster = Entity +
  species :: Species

text \<open>
  The map is an external collaborator, reached through \<^verbatim>\<open>std::unique_ptr<Map>\<close>. Its
  state is a type parameter \<open>'m\<close> and the member functions the game calls are the fields
  of an interface record; \<open>randomFreePosition\<close> and \<open>loadLevel\<close> return the changed map.
\<close>

record 'm MapI =
  getStart :: "'m \<Rightarrow> Point"
  getEnd :: "'m \<Rightarrow> Point"
  isPositionFree :: "'m \<Rightarrow> Point \<Rightarrow> bool"
  randomFreePosition :: "'m \<Rightarrow> Point \<times> 'm"
  map_loadLevel :: "'m \<Rightarrow> 'm"

text \<open>
  The members of \<^verbatim>\<open>class Game\<close> (\<^verbatim>\<open>game.h\<close>), and \<open>rand_calls\<close>: the number of calls
  of the C library's \<^verbatim>\<open>rand()\<close> made so far, which stands for its hidden state. The
  values \<^verbatim>\<open>rand()\<close> returns are a parameter \<open>rnd\<close> of the functions that draw: call
  number \<open>k\<close> returns \<open>rnd k\<close>, a non-negative number.
\<close>

record 'm Game =
  level :: int
  player :: Player
  map_h :: 'm
  monsters :: "Monster list"
  rand_calls :: nat

section \<open>Movement and collision\<close>

text \<open>
  \<^verbatim>\<open>Game::updateEntityPosition\<close>. Its first part starts, for an Orc, a detached thread
  that computes a path and may later call \<^verbatim>\<open>Orc::setPath\<close>; the thread writes nothing
  else and the function does not wait for it, so the position logic below is all that
  the caller observes when the function returns. The body of the thread is modelled on
  its own in the next section; the pursuit path is not a field of the monsters here.
\<close>

definition updateEntityPosition ::
  "'m MapI \<Rightarrow> 'm \<Rightarrow> 'e Entity_scheme \<Rightarrow> int \<Rightarrow> int \<Rightarrow> 'e Entity_scheme" where
  "updateEntityPosition mi m entity dx dy =
     (let oldPos = getPosition entity;
          entity' = move entity dx dy
      in if \<not> isPositionFree mi m (getPosition entity') then setPosition entity' oldPos
         else entity')"

section \<open>The background path task\<close>

text \<open>
  The detached thread that \<^verbatim>\<open>updateEntityPosition\<close> starts for an Orc runs beside the
  main loop; its body is one step, taken when the thread gets there. The thread holds
  a reference to the Orc, that is an address. The roster owns its monsters through
  \<^verbatim>\<open>std::unique_ptr\<close>, so erasing a monster from the roster destroys the object. Of
  the heap only the pursuit paths matter here: \<open>paths a\<close> is the path of the Orc that
  lives at address \<open>a\<close>, and \<open>None\<close> when no object lives there any more. The path
  search (\<^verbatim>\<open>AStar\<close>, not among the sources) is a parameter: \<open>found\<close> is the path it
  returns, \<open>None\<close> when it throws \<^verbatim>\<open>std::runtime_error\<close>.
\<close>

type_synonym addr = nat

text \<open>
  How the task ends: without a write, with a write into a live object, or with a write
  through a dangling reference (undefined behaviour in C++).
\<close>

datatype task_end = Discarded | Written "addr \<Rightarrow> Point list option" | WroteFreed

text \<open>
  The guard \<^verbatim>\<open>dynamic_cast<Orc *>(&orc) != nullptr\<close>. The operand \<^verbatim>\<open>&orc\<close> has the
  type \<^verbatim>\<open>Orc *\<close> already, so the cast is the identity and inspects no object, and the
  address of a reference is not null: the guard holds whatever has become of the Orc.
\<close>

definition orcGuard :: "(addr \<Rightarrow> Point list option) \<Rightarrow> addr \<Rightarrow> bool" where
  "orcGuard paths orc \<longleftrightarrow> True"

definition pathTask :: "(addr \<Rightarrow> Point list option) \<Rightarrow> addr \<Rightarrow> Point list option \<Rightarrow> task_end" where
  "pathTask paths orc found =
     (case found of
        None \<Rightarrow> Discarded
      | Some path \<Rightarrow>
          if orcGuard paths orc \<and> path \<noteq> [] then
            (case paths orc of
               None \<Rightarrow> WroteFreed
             | Some old \<Rightarrow> Written (paths(orc \<mapsto> path)))
          else Discarded)"

section \<open>Monster steering\<close>

text \<open>C++ \<^verbatim>\<open>/\<close> on \<^verbatim>\<open>int\<close>: the quotient truncated towards zero.\<close>

definition c_div :: "int \<Rightarrow> int \<Rightarrow> int" where
  "c_div a b = sgn a * sgn b * (\<bar>a\<bar> div \<bar>b\<bar>)"

text \<open>
  Modelled from the spec: \<^verbatim>\<open>Point::distance\<close> (its header is not among the sources),
  "a distance metric (Euclidean)" on integer points, returned as a \<^verbatim>\<open>double\<close>; the
  square root is taken in the reals.
\<close>

definition distance :: "Point \<Rightarrow> Point \<Rightarrow> real" where
  "distance p q = sqrt (of_int ((x p - x q)\<^sup>2 + (y p - y q)\<^sup>2))"

definition areEntitiesInVicinity ::
  "'a Entity_scheme \<Rightarrow> 'b Entity_scheme \<Rightarrow> int \<Rightarrow> bool" where
  "areEntitiesInVicinity entity1 entity2 d \<longleftrightarrow>
     distance (getPosition entity1) (getPosition entity2) \<le> of_int d"

text \<open>
  The body of the loop of \<^verbatim>\<open>Game::updatePositions\<close> up to the call of
  \<^verbatim>\<open>updateEntityPosition\<close>: the offset chosen for one monster, and the monster after
  the call.
\<close>

definition monsterDelta :: "Player \<Rightarrow> Monster \<Rightarrow> int \<times> int" where
  "monsterDelta pl monster =
     (if areEntitiesInVicinity pl monster 10 then
        (let dx = x (getPosition pl) - x (getPosition monster);
             dy = y (getPosition pl) - y (getPosition monster);
             dx' = (if dx \<noteq> 0 then c_div dx \<bar>dx\<bar> else dx);
             dy' = (if dy \<noteq> 0 then c_div dy \<bar>dy\<bar> else dy)
         in (dx', dy'))
      else (1, 1))"

definition monsterStep :: "'m MapI \<Rightarrow> 'm Game \<Rightarrow> Monster \<Rightarrow> Monster" where
  "monsterStep mi g monster =
     (case monsterDelta (player g) monster of
        (dx, dy) \<Rightarrow> updateEntityPosition mi (map_h g) monster dx dy)"

section \<open>Combat\<close>

text \<open>
  One pass through the body of the \<^verbatim>\<open>while\<close> loop of \<^verbatim>\<open>Game::fight\<close>: two calls of
  \<^verbatim>\<open>rand()\<close>, numbers \<open>k\<close> and \<open>k + 1\<close>; a roll that is not a multiple of 3 lands the
  acting side's attack on the other side. The fight log is display data and is left
  out.
\<close>

definition fight_round ::
  "(nat \<Rightarrow> nat) \<Rightarrow> nat \<Rightarrow> 'a Entity_scheme \<Rightarrow> 'b Entity_scheme
     \<Rightarrow> 'a Entity_scheme \<times> 'b Entity_scheme \<times> nat" where
  "fight_round rnd k attacker defender =
     (let defender' = (if rnd k mod 3 \<noteq> 0 then takeDamage defender (getAttack attacker)
                       else defender);
          attacker' = (if rnd (k + 1) mod 3 \<noteq> 0 then takeDamage attacker (getAttack defender')
                       else attacker)
      in (attacker', defender', k + 2))"

text \<open>
  The loop itself. Nothing bounds the number of rounds, so the loop is a partial
  function: \<open>None\<close> is the fight that never ends.
\<close>

partial_function (option) fight_loop ::
  "(nat \<Rightarrow> nat) \<Rightarrow> nat \<Rightarrow> 'a Entity_scheme \<Rightarrow> 'b Entity_scheme
     \<Rightarrow> ('a Entity_scheme \<times> 'b Entity_scheme \<times> nat) option" where
  "fight_loop rnd k attacker defender =
     (if isAlive attacker \<and> isAlive defender then
        (case fight_round rnd k attacker defender of
           (attacker', defender', k') \<Rightarrow> fight_loop rnd k' attacker' defender')
      else Some (attacker, defender, k))"

text \<open>
  \<^verbatim>\<open>Game::gameOver\<close> shows the final screen and raises \<^verbatim>\<open>SIGQUIT\<close>, whose handler
  leaves the process: a call of it does not return to the game. A call of
  \<^verbatim>\<open>Game::fight\<close> ends by leaving the process, by returning, or by reading a monster
  that it has just destroyed (undefined behaviour in C++).
\<close>

datatype 'a outcome = Exited | Returned 'a | ReadErased

definition gameOver :: "'m Game \<Rightarrow> 'm Game outcome" where
  "gameOver g = Exited"

text \<open>
  \<^verbatim>\<open>Game::fight\<close> takes two references. Its callers pass a monster of the roster and
  the player (\<^verbatim>\<open>updatePositions\<close>), or the player and a monster of the roster
  (\<^verbatim>\<open>handleInput\<close>); the index is that of the monster, which both callers take from the
  roster itself. The last statement builds the log line from \<^verbatim>\<open>defender.toString()\<close>:
  the player when a monster attacks; when the player attacks it is the monster, which
  \<^verbatim>\<open>monsters.erase\<close> has destroyed by then if it is dead.
\<close>

datatype Combat = MonsterAttacks nat | PlayerAttacks nat

definition fight_end :: "'m Game \<Rightarrow> 'm Game outcome" where
  "fight_end g =
     (if \<not> isAlive (player g) then gameOver g
      else Returned (g\<lparr>player := setExp (player g) (getExp (player g) + 10),
                       monsters := filter isAlive (monsters g)\<rparr>))"

definition fight :: "(nat \<Rightarrow> nat) \<Rightarrow> 'm Game \<Rightarrow> Combat \<Rightarrow> 'm Game outcome option" where
  "fight rnd g c =
     (case c of
        MonsterAttacks i \<Rightarrow>
          (case fight_loop rnd (rand_calls g) (monsters g ! i) (player g) of
             None \<Rightarrow> None
           | Some (attacker, defender, k) \<Rightarrow>
               Some (fight_end (g\<lparr>player := defender,
                                  monsters := (monsters g)[i := attacker],
                                  rand_calls := k\<rparr>)))
      | PlayerAttacks i \<Rightarrow>
          (case fight_loop rnd (rand_calls g) (player g) (monsters g ! i) of
             None \<Rightarrow> None
           | Some (attacker, defender, k) \<Rightarrow>
               Some (case fight_end (g\<lparr>player := attacker,
                                        monsters := (monsters g)[i := defender],
                                        rand_calls := k\<rparr>) of
                       Returned g' \<Rightarrow> if isAlive defender then Returned g' else ReadErased
                     | Exited \<Rightarrow> Exited
                     | ReadErased \<Rightarrow> ReadErased)))"

section \<open>The monsters' turn\<close>

text \<open>
  \<^verbatim>\<open>Game::updatePositions\<close>: the range-for over the roster, which updates each monster
  in place. \<open>visited\<close> are the monsters already passed, as they are now; the second list
  is what is still to come. The \<^verbatim>\<open>break\<close> after the fight ends the loop.
\<close>

fun updatePositions_loop ::
  "'m MapI \<Rightarrow> (nat \<Rightarrow> nat) \<Rightarrow> 'm Game \<Rightarrow> Monster list \<Rightarrow> Monster list
     \<Rightarrow> 'm Game outcome option" where
  "updatePositions_loop mi rnd g visited [] = Some (Returned (g\<lparr>monsters := visited\<rparr>))"
| "updatePositions_loop mi rnd g visited (monster # rest) =
     (let monster' = monsterStep mi g monster
      in if getPosition (player g) = getPosition monster'
         then fight rnd (g\<lparr>monsters := visited @ monster' # rest\<rparr>)
                (MonsterAttacks (length visited))
         else updatePositions_loop mi rnd g (visited @ [monster']) rest)"

definition updatePositions ::
  "'m MapI \<Rightarrow> (nat \<Rightarrow> nat) \<Rightarrow> 'm Game \<Rightarrow> 'm Game outcome option" where
  "updatePositions mi rnd g = updatePositions_loop mi rnd g [] (monsters g)"

section \<open>Level loading\<close>

text \<open>
  Modelled from the spec: the constructors of the monster classes (their header is not
  among the sources). "Monster construction fixes health/attack from a per-species base
  table": the table is the parameter \<open>tbl\<close>, which gives for each species the entity a
  new monster starts as; the constructor puts it at the position it is given.
\<close>

definition newMonster :: "(Species \<Rightarrow> Entity) \<Rightarrow> Species \<Rightarrow> Point \<Rightarrow> Monster" where
  "newMonster tbl s p =
     \<lparr>position = p, velocity = velocity (tbl s), health = health (tbl s),
      strength = strength (tbl s), representation = representation (tbl s),
      species = s\<rparr>"

text \<open>
  The lambda \<^verbatim>\<open>createMonster\<close> of \<^verbatim>\<open>Game::initalizeMonsters\<close>: its \<^verbatim>\<open>for\<close> loop runs
  \<open>count\<close> times for a positive \<open>count\<close> and not at all otherwise.
\<close>

primrec createMonster_loop ::
  "'m MapI \<Rightarrow> nat \<Rightarrow> (Point \<Rightarrow> Monster) \<Rightarrow> 'm Game \<Rightarrow> 'm Game" where
  "createMonster_loop mi 0 builder g = g"
| "createMonster_loop mi (Suc n) builder g =
     (case randomFreePosition mi (map_h g) of
        (p, m') \<Rightarrow>
          createMonster_loop mi n builder
            (g\<lparr>map_h := m', monsters := monsters g @ [builder p]\<rparr>))"

definition createMonster ::
  "'m MapI \<Rightarrow> int \<Rightarrow> (Point \<Rightarrow> Monster) \<Rightarrow> 'm Game \<Rightarrow> 'm Game" where
  "createMonster mi count builder g = createMonster_loop mi (nat count) builder g"

definition initalizeMonsters ::
  "'m MapI \<Rightarrow> (Species \<Rightarrow> Entity) \<Rightarrow> int \<Rightarrow> 'm Game \<Rightarrow> 'm Game" where
  "initalizeMonsters mi tbl count g =
     (let g0 = g\<lparr>monsters := []\<rparr>;
          goblinsCount = c_div count 2;
          orcsCount = c_div count 3;
          trollsCount = c_div count 6;
          dragonsCount = count - goblinsCount - orcsCount - trollsCount;
          g1 = createMonster mi goblinsCount (newMonster tbl Goblin) g0;
          g2 = createMonster mi orcsCount (newMonster tbl Orc) g1;
          g3 = createMonster mi trollsCount (newMonster tbl Troll) g2
      in createMonster mi dragonsCount (newMonster tbl Dragon) g3)"

text \<open>
  The argument of \<^verbatim>\<open>initalizeMonsters\<close> in \<^verbatim>\<open>Game::loadLevel\<close>,
  \<^verbatim>\<open>GameSettings::monsterCount + pow(2, level - 1)\<close>: a \<^verbatim>\<open>double\<close>, converted to the
  \<^verbatim>\<open>int\<close> parameter by dropping its fraction. The constant is a parameter (its header
  is not among the sources); a power of two and its sum with an \<^verbatim>\<open>int\<close> are exact in
  a \<^verbatim>\<open>double\<close>, so the value is computed in the rationals. The conversion is defined
  in C++ only while the value fits an \<^verbatim>\<open>int\<close>, which it does up to level 31 for a
  count of screen size; the game itself stays at level 0.
\<close>

definition c_trunc :: "rat \<Rightarrow> int" where
  "c_trunc q = (if 0 \<le> q then \<lfloor>q\<rfloor> else \<lceil>q\<rceil>)"

definition levelMonsterCount :: "int \<Rightarrow> int \<Rightarrow> int" where
  "levelMonsterCount monsterCount lvl = c_trunc (of_int monsterCount + power_int 2 (lvl - 1))"

definition loadLevel :: "'m MapI \<Rightarrow> (Species \<Rightarrow> Entity) \<Rightarrow> int \<Rightarrow> 'm Game \<Rightarrow> 'm Game" where
  "loadLevel mi tbl monsterCount g =
     (let g1 = g\<lparr>map_h := map_loadLevel mi (map_h g)\<rparr>;
          g2 = g1\<lparr>player := setPosition (player g1) (getStart mi (map_h g1))\<rparr>
      in initalizeMonsters mi tbl (levelMonsterCount monsterCount (level g2)) g2)"

definition isLevelComplete :: "'m MapI \<Rightarrow> 'm Game \<Rightarrow> bool" where
  "isLevelComplete mi g \<longleftrightarrow> getPosition (player g) = getEnd mi (map_h g)"

text \<open>
  The level transition of \<^verbatim>\<open>Game::run\<close>:
  \<^verbatim>\<open>if (isLevelComplete()) { loadLevel(); }\<close>.
\<close>

definition levelTransition ::
  "'m MapI \<Rightarrow> (Species \<Rightarrow> Entity) \<Rightarrow> int \<Rightarrow> 'm Game \<Rightarrow> 'm Game" where
  "levelTransition mi tbl monsterCount g =
     (if isLevelComplete mi g then loadLevel mi tbl monsterCount g else g)"

section \<open>Treasure\<close>





section \<open>Notions used to state the properties\<close>




text \<open>The cells the map hands out on \<open>n\<close> successive calls of \<open>randomFreePosition\<close>,
  and the map after them.\<close>

primrec drawn :: "'m MapI \<Rightarrow> nat \<Rightarrow> 'm \<Rightarrow> Point list \<times> 'm" where
  "drawn mi 0 m = ([], m)"
| "drawn mi (Suc n) m =
     (case randomFreePosition mi m of
        (p, m') \<Rightarrow> (case drawn mi n m' of (ps, m'') \<Rightarrow> (p # ps, m'')))"

text \<open>A monster ends its step on the player's cell.\<close>

definition lands :: "'m MapI \<Rightarrow> 'm Game \<Rightarrow> Monster \<Rightarrow> bool" where
  "lands mi g monster \<longleftrightarrow> getPosition (player g) = getPosition (monsterStep mi g monster)"

text \<open>A sequence of \<open>takeDamage\<close> calls on one entity.\<close>

definition takeDamages :: "'e Entity_scheme \<Rightarrow> int list \<Rightarrow> 'e Entity_scheme" where
  "takeDamages entity ds = foldl takeDamage entity ds"

section \<open>A small dungeon\<close>

text \<open>
  An open room of forty by twenty cells whose map hands out its cells row by row; a
  player; a goblin next to the player, an orc two cells away, a dragon far off and a
  troll in the far corner; a generator that never returns a multiple of three and one
  that always does.
\<close>

definition room :: "nat MapI" where
  "room = \<lparr>getStart = (\<lambda>m. \<lparr>x = 0, y = 0\<rparr>),
           getEnd = (\<lambda>m. \<lparr>x = 39, y = 19\<rparr>),
           isPositionFree = (\<lambda>m p. 0 \<le> x p \<and> x p < 40 \<and> 0 \<le> y p \<and> y p < 20),
           randomFreePosition = (\<lambda>m. (\<lparr>x = int (m mod 40), y = int (m div 40 mod 20)\<rparr>, Suc m)),
           map_loadLevel = (\<lambda>m. 0)\<rparr>"

definition stats :: "Species \<Rightarrow> Entity" where
  "stats s =
     \<lparr>position = \<lparr>x = 0, y = 0\<rparr>, velocity = \<lparr>x = 0, y = 0\<rparr>,
      health = (case s of Goblin \<Rightarrow> 5 | Orc \<Rightarrow> 8 | Troll \<Rightarrow> 12 | Dragon \<Rightarrow> 30),
      strength = (case s of Goblin \<Rightarrow> 1 | Orc \<Rightarrow> 2 | Troll \<Rightarrow> 3 | Dragon \<Rightarrow> 6),
      representation = \<lparr>symbol = CHR ''m'', color = 1\<rparr>\<rparr>"

definition hero :: Player where
  "hero = \<lparr>position = \<lparr>x = 5, y = 5\<rparr>, velocity = \<lparr>x = 0, y = 0\<rparr>, health = 100,
           strength = 50, representation = \<lparr>symbol = CHR ''@'', color = 0\<rparr>,
           exp_points = 0\<rparr>"

definition gob :: Monster where
  "gob = newMonster stats Goblin \<lparr>x = 4, y = 5\<rparr>"

definition orc :: Monster where
  "orc = newMonster stats Orc \<lparr>x = 7, y = 5\<rparr>"

definition dragon :: Monster where
  "dragon = newMonster stats Dragon \<lparr>x = 30, y = 5\<rparr>"

definition troll :: Monster where
  "troll = newMonster stats Troll \<lparr>x = 39, y = 19\<rparr>"

text \<open>A turn with a fight at its very start, and the game after it.\<close>

definition arena :: "nat Game" where
  "arena = \<lparr>level = 0, player = hero, map_h = 0, monsters = [gob, orc], rand_calls = 0\<rparr>"

definition arenaAfter :: "nat Game" where
  "arenaAfter =
     \<lparr>level = 0, player = hero\<lparr>health := 99, exp_points := 10\<rparr>, map_h = 0,
      monsters = [orc], rand_calls = 2\<rparr>"

text \<open>A turn without a fight.\<close>

definition patrol :: "nat Game" where
  "patrol = \<lparr>level = 0, player = hero, map_h = 0, monsters = [orc, dragon, troll],
             rand_calls = 0\<rparr>"

text \<open>A turn with a fight in the middle of the roster, and the game after it.\<close>

definition crowd :: "nat Game" where
  "crowd = \<lparr>level = 0, player = hero, map_h = 0, monsters = [dragon, gob, orc],
            rand_calls = 0\<rparr>"

definition crowdAfter :: "nat Game" where
  "crowdAfter =
     \<lparr>level = 0, player = hero\<lparr>health := 99, exp_points := 10\<rparr>, map_h = 0,
      monsters = [dragon\<lparr>position := \<lparr>x = 31, y = 6\<rparr>\<rparr>, orc], rand_calls = 2\<rparr>"

definition allHit :: "nat \<Rightarrow> nat" where
  "allHit k = 1"


definition allMiss :: "nat \<Rightarrow> nat" where
  "allMiss k = 0"

section \<open>Movement: revert on collision\<close>

text \<open>
  C2. For every entity, player or monster, and every offset: when the cell reached by
  the offset is not free on the map, the entity is at its old position after
  \<^verbatim>\<open>updateEntityPosition\<close>; when the cell is free, the entity is at that cell.
\<close>

theorem updateEntityPosition_position:
  "(\<not> isPositionFree mi m \<lparr>x = x (getPosition entity) + dx, y = y (getPosition entity) + dy\<rparr>
      \<longrightarrow> getPosition (updateEntityPosition mi m entity dx dy) = getPosition entity)
   \<and> (isPositionFree mi m \<lparr>x = x (getPosition entity) + dx, y = y (getPosition entity) + dy\<rparr>
      \<longrightarrow> getPosition (updateEntityPosition mi m entity dx dy)
            = \<lparr>x = x (getPosition entity) + dx, y = y (getPosition entity) + dy\<rparr>)"
  by (simp add: updateEntityPosition_def Let_def getPosition_def setPosition_def move_def)

text \<open>The troll in the corner of the room cannot leave it; the player steps up.\<close>

theorem updateEntityPosition_position_witness:
  "\<not> isPositionFree room 0 \<lparr>x = x (getPosition troll) + 1, y = y (getPosition troll) + 1\<rparr>
   \<and> getPosition (updateEntityPosition room 0 troll 1 1) = \<lparr>x = 39, y = 19\<rparr>
   \<and> isPositionFree room 0 \<lparr>x = x (getPosition hero) + 0, y = y (getPosition hero) + (- 1)\<rparr>
   \<and> getPosition (updateEntityPosition room 0 hero 0 (- 1)) = \<lparr>x = 5, y = 4\<rparr>"
proof -
  have blocked:
    "\<not> isPositionFree room 0 \<lparr>x = x (getPosition troll) + 1, y = y (getPosition troll) + 1\<rparr>"
    by (simp add: room_def troll_def newMonster_def getPosition_def)
  have free:
    "isPositionFree room 0 \<lparr>x = x (getPosition hero) + 0, y = y (getPosition hero) + (- 1)\<rparr>"
    by (simp add: room_def hero_def getPosition_def)
  have t: "getPosition troll = \<lparr>x = 39, y = 19\<rparr>"
    by (simp add: troll_def newMonster_def getPosition_def)
  have h: "getPosition hero = \<lparr>x = 5, y = 5\<rparr>"
    by (simp add: hero_def getPosition_def)
  from updateEntityPosition_position [of room 0 troll 1 1] blocked t
  have 1: "getPosition (updateEntityPosition room 0 troll 1 1) = \<lparr>x = 39, y = 19\<rparr>"
    by simp
  from updateEntityPosition_position [of room 0 hero 0 "- 1"] free h
  have 2: "getPosition (updateEntityPosition room 0 hero 0 (- 1)) = \<lparr>x = 5, y = 4\<rparr>"
    by simp
  from blocked 1 free 2 show ?thesis by blast
qed

section \<open>The path task and a removed Orc\<close>

lemma pathTask_removed:
  "paths a = None \<Longrightarrow> path \<noteq> [] \<Longrightarrow> pathTask paths a (Some path) = WroteFreed"
  by (simp add: pathTask_def orcGuard_def)

text \<open>
  C1 does not hold of the code: the guard of the task cannot tell that its Orc is gone.
  With one live Orc at address 0 and the task's Orc, once at address 1, erased from
  the roster, a task that has found a path of one cell does not discard it: it writes
  through the dangling reference.
\<close>

theorem pathTask_writes_after_removal:
  "pathTask [0 \<mapsto> []] 1 (Some [\<lparr>x = 5, y = 5\<rparr>]) = WroteFreed"
  by (simp add: pathTask_def orcGuard_def)

section \<open>Health under damage\<close>

lemma health_takeDamages:
  "health (takeDamages entity ds) = health entity - sum_list ds"
  unfolding takeDamages_def
  by (induction ds arbitrary: entity) (simp_all add: takeDamage_def)

text \<open>
  C4, as the claim states it, fails: \<open>takeDamage\<close> subtracts and nothing floors the
  result, so the goblin of five health points that takes 3 and then 4 shows a health
  of -2 through \<open>getHealth\<close>.
\<close>

theorem getHealth_negative_counterexample:
  "getHealth (takeDamages gob [3, 4]) = - 2"
  by (simp add: getHealth_def health_takeDamages gob_def newMonster_def stats_def)

text \<open>
  C4, amended. For every entity and every sequence of \<open>takeDamage\<close> calls with
  non-negative amounts, the health read through \<open>getHealth\<close> is the initial health
  less the sum of the amounts: it never increases (and is negative once the damage
  exceeds the initial health), and \<open>isAlive\<close> holds exactly when it is positive.
\<close>

theorem getHealth_takeDamages:
  assumes "\<forall>d\<in>set ds. 0 \<le> d"
  shows "getHealth (takeDamages entity ds) = getHealth entity - sum_list ds
    \<and> getHealth (takeDamages entity ds) \<le> getHealth entity
    \<and> (isAlive (takeDamages entity ds) \<longleftrightarrow> 0 < getHealth (takeDamages entity ds))"
proof -
  have "0 \<le> sum_list ds" using assms by (simp add: sum_list_nonneg)
  then show ?thesis by (simp add: getHealth_def isAlive_def health_takeDamages)
qed

theorem getHealth_takeDamages_witness:
  "getHealth (takeDamages hero [30, 0, 50]) = 20
   \<and> getHealth (takeDamages hero [30, 0, 50]) \<le> getHealth hero
   \<and> isAlive (takeDamages hero [30, 0, 50])"
proof -
  have "\<forall>d\<in>set [30, 0, 50 :: int]. 0 \<le> d" by simp
  from getHealth_takeDamages [OF this, of hero]
  show ?thesis by (simp add: getHealth_def hero_def)
qed

section \<open>Combat: the loop of the fight\<close>

declare fight_loop.simps [code]

lemma fight_loop_stop:
  "\<not> (isAlive attacker \<and> isAlive defender) \<Longrightarrow>
     fight_loop rnd k attacker defender = Some (attacker, defender, k)"
  by (subst fight_loop.simps) auto

lemma fight_loop_step:
  "isAlive attacker \<Longrightarrow> isAlive defender \<Longrightarrow>
     fight_round rnd k attacker defender = (attacker', defender', k') \<Longrightarrow>
     fight_loop rnd k attacker defender = fight_loop rnd k' attacker' defender'"
  by (subst fight_loop.simps) simp

lemma fight_loop_some_dead:
  assumes "fight_loop rnd k attacker defender = Some r"
  shows "\<not> (isAlive (fst r) \<and> isAlive (fst (snd r)))"
proof (rule fight_loop.raw_induct
    [where P = "\<lambda>rnd k a d r. \<not> (isAlive (fst r) \<and> isAlive (fst (snd r)))", OF _ assms])
  fix loop :: "(nat \<Rightarrow> nat) \<Rightarrow> nat \<Rightarrow> 'a Entity_scheme \<Rightarrow> 'b Entity_scheme
     \<Rightarrow> ('a Entity_scheme \<times> 'b Entity_scheme \<times> nat) option"
  fix rnd k attacker defender r
  assume IH: "\<And>rnd k a d r. loop rnd k a d = Some r \<Longrightarrow>
      \<not> (isAlive (fst r) \<and> isAlive (fst (snd r)))"
  assume body: "(if isAlive attacker \<and> isAlive defender
      then case fight_round rnd k attacker defender of
           (attacker', defender', k') \<Rightarrow> loop rnd k' attacker' defender'
      else Some (attacker, defender, k)) = Some r"
  show "\<not> (isAlive (fst r) \<and> isAlive (fst (snd r)))"
  proof (cases "isAlive attacker \<and> isAlive defender")
    case True
    obtain a d k' where rd: "fight_round rnd k attacker defender = (a, d, k')"
      by (cases "fight_round rnd k attacker defender") auto
    from body True rd have "loop rnd k' a d = Some r" by simp
    then show ?thesis by (rule IH)
  next
    case False
    with body have "r = (attacker, defender, k)" by auto
    with False show ?thesis by auto
  qed
qed

lemma fight_loop_allMiss:
  assumes "fight_loop rnd k attacker defender = Some r"
  shows "rnd = allMiss \<longrightarrow> \<not> (isAlive attacker \<and> isAlive defender)"
proof (rule fight_loop.raw_induct
    [where P = "\<lambda>rnd k a d r. rnd = allMiss \<longrightarrow> \<not> (isAlive a \<and> isAlive d)", OF _ assms])
  fix loop :: "(nat \<Rightarrow> nat) \<Rightarrow> nat \<Rightarrow> 'a Entity_scheme \<Rightarrow> 'b Entity_scheme
     \<Rightarrow> ('a Entity_scheme \<times> 'b Entity_scheme \<times> nat) option"
  fix rnd k attacker defender r
  assume IH: "\<And>rnd k a d r. loop rnd k a d = Some r \<Longrightarrow>
      rnd = allMiss \<longrightarrow> \<not> (isAlive a \<and> isAlive d)"
  assume body: "(if isAlive attacker \<and> isAlive defender
      then case fight_round rnd k attacker defender of
           (attacker', defender', k') \<Rightarrow> loop rnd k' attacker' defender'
      else Some (attacker, defender, k)) = Some r"
  show "rnd = allMiss \<longrightarrow> \<not> (isAlive attacker \<and> isAlive defender)"
  proof (intro impI notI)
    assume r: "rnd = allMiss" and alive: "isAlive attacker \<and> isAlive defender"
    have rd: "fight_round rnd k attacker defender = (attacker, defender, k + 2)"
      using r by (simp add: fight_round_def allMiss_def)
    from body alive rd have "loop rnd (k + 2) attacker defender = Some r" by simp
    from IH [OF this] r alive show False by simp
  qed
qed





text \<open>
  In the model the rolls are any sequence, and the condition on them in the theorem
  below cannot be dropped there: on a sequence of multiples of three only, every roll
  misses and the loop does not end.
\<close>

lemma fight_loop_all_misses:
  "fight_loop allMiss 0 gob hero = None"
proof (cases "fight_loop allMiss 0 gob hero")
  case None
  then show ?thesis .
next
  case (Some r)
  from fight_loop_allMiss [OF Some]
  show ?thesis by (simp add: isAlive_def gob_def hero_def newMonster_def stats_def)
qed



text \<open>The fight changes nothing of a combatant but its health.\<close>

lemma fight_loop_health_only:
  assumes "fight_loop rnd k attacker defender = Some r"
  shows "fst r = attacker\<lparr>health := health (fst r)\<rparr>
       \<and> fst (snd r) = defender\<lparr>health := health (fst (snd r))\<rparr>"
proof (rule fight_loop.raw_induct
    [where P = "\<lambda>rnd k a d r. fst r = a\<lparr>health := health (fst r)\<rparr>
       \<and> fst (snd r) = d\<lparr>health := health (fst (snd r))\<rparr>", OF _ assms])
  fix loop :: "(nat \<Rightarrow> nat) \<Rightarrow> nat \<Rightarrow> 'a Entity_scheme \<Rightarrow> 'b Entity_scheme
     \<Rightarrow> ('a Entity_scheme \<times> 'b Entity_scheme \<times> nat) option"
  fix rnd k attacker defender r
  assume IH: "\<And>rnd k a d r. loop rnd k a d = Some r \<Longrightarrow>
      fst r = a\<lparr>health := health (fst r)\<rparr>
       \<and> fst (snd r) = d\<lparr>health := health (fst (snd r))\<rparr>"
  assume body: "(if isAlive attacker \<and> isAlive defender
      then case fight_round rnd k attacker defender of
           (attacker', defender', k') \<Rightarrow> loop rnd k' attacker' defender'
      else Some (attacker, defender, k)) = Some r"
  show "fst r = attacker\<lparr>health := health (fst r)\<rparr>
       \<and> fst (snd r) = defender\<lparr>health := health (fst (snd r))\<rparr>"
  proof (cases "isAlive attacker \<and> isAlive defender")
    case True
    obtain a d k' where rd: "fight_round rnd k attacker defender = (a, d, k')"
      by (cases "fight_round rnd k attacker defender") auto
    then have ad: "a = attacker\<lparr>health := health a\<rparr>" "d = defender\<lparr>health := health d\<rparr>"
      by (auto simp: fight_round_def Let_def takeDamage_def split: if_splits)
    from body True rd have "loop rnd k' a d = Some r" by simp
    from IH [OF this] have "fst r = a\<lparr>health := health (fst r)\<rparr>"
      "fst (snd r) = d\<lparr>health := health (fst (snd r))\<rparr>" by simp_all
    then show ?thesis by (metis ad Entity.update_convs(3) Entity.surjective Entity.select_convs(3))
  next
    case False
    with body have "r = (attacker, defender, k)" by auto
    then show ?thesis by simp
  qed
qed

text \<open>
  C9. In a round of \<^verbatim>\<open>Game::fight\<close> in which the attacker's strike lands and takes
  the defender's health to zero or below, the defender's roll is still made (the round
  uses two values of \<^verbatim>\<open>rand()\<close>), and when it is not a multiple of three the dead
  defender deals its full attack to the attacker; the loop then ends with that state.
\<close>

theorem fight_dead_defender_strikes_back:
  assumes "isAlive attacker" and "isAlive defender"
    and "rnd k mod 3 \<noteq> 0" and "getHealth defender \<le> getAttack attacker"
  shows "\<not> isAlive (takeDamage defender (getAttack attacker))
    \<and> fight_round rnd k attacker defender
        = (if rnd (k + 1) mod 3 \<noteq> 0 then takeDamage attacker (getAttack defender)
           else attacker,
           takeDamage defender (getAttack attacker), k + 2)
    \<and> fight_loop rnd k attacker defender
        = Some (if rnd (k + 1) mod 3 \<noteq> 0 then takeDamage attacker (getAttack defender)
                else attacker,
                takeDamage defender (getAttack attacker), k + 2)
    \<and> getHealth (takeDamage attacker (getAttack defender))
        = getHealth attacker - getAttack defender"
proof -
  let ?d = "takeDamage defender (getAttack attacker)"
  let ?a = "if rnd (k + 1) mod 3 \<noteq> 0 then takeDamage attacker (getAttack defender)
            else attacker"
  have dead: "\<not> isAlive ?d"
    using assms(4) by (simp add: isAlive_def takeDamage_def getHealth_def getAttack_def)
  have rd: "fight_round rnd k attacker defender = (?a, ?d, k + 2)"
    using assms(3) by (simp add: fight_round_def Let_def getAttack_def takeDamage_def)
  have "fight_loop rnd k attacker defender = fight_loop rnd (k + 2) ?a ?d"
    using assms(1,2) rd by (rule fight_loop_step)
  also have "\<dots> = Some (?a, ?d, k + 2)"
    using dead by (simp add: fight_loop_stop)
  finally have lp: "fight_loop rnd k attacker defender = Some (?a, ?d, k + 2)" .
  have "getHealth (takeDamage attacker (getAttack defender))
        = getHealth attacker - getAttack defender"
    by (simp add: getHealth_def takeDamage_def)
  with dead rd lp show ?thesis by blast
qed

text \<open>The player strikes the goblin dead and still loses a health point to it.\<close>

theorem fight_dead_defender_strikes_back_witness:
  "isAlive hero \<and> isAlive gob \<and> allHit 0 mod 3 \<noteq> 0 \<and> getHealth gob \<le> getAttack hero
   \<and> \<not> isAlive (takeDamage gob (getAttack hero))
   \<and> fight_loop allHit 0 hero gob = Some (takeDamage hero 1, takeDamage gob 50, 2)
   \<and> getHealth (takeDamage hero (getAttack gob)) = 99"
proof -
  have h1: "isAlive hero" by (simp add: isAlive_def hero_def)
  have h2: "isAlive gob" by (simp add: isAlive_def gob_def newMonster_def stats_def)
  have h3: "allHit 0 mod 3 \<noteq> 0" by (simp add: allHit_def)
  have h4: "getHealth gob \<le> getAttack hero"
    by (simp add: getHealth_def getAttack_def gob_def newMonster_def stats_def hero_def)
  have a: "getAttack hero = 50" "getAttack gob = 1" "getHealth hero = 100"
    by (simp_all add: getHealth_def getAttack_def gob_def newMonster_def stats_def hero_def)
  from fight_dead_defender_strikes_back [where rnd = allHit and k = 0, OF h1 h2 h3 h4] h1 h2 h3 h4 a
  show ?thesis by (simp add: allHit_def)
qed

section \<open>Steering: the offset of a monster\<close>

text \<open>
  The comparison of the Euclidean distance with an integer, on the squares; this is
  also how the comparison is evaluated.
\<close>

lemma areEntitiesInVicinity_squares [code]:
  "areEntitiesInVicinity entity1 entity2 d \<longleftrightarrow>
     0 \<le> d \<and> (x (position entity1) - x (position entity2))\<^sup>2
              + (y (position entity1) - y (position entity2))\<^sup>2 \<le> d\<^sup>2"
proof -
  let ?s = "(x (position entity1) - x (position entity2))\<^sup>2
              + (y (position entity1) - y (position entity2))\<^sup>2"
  have s0: "0 \<le> ?s" by simp
  show ?thesis
  proof (cases "0 \<le> d")
    case True
    have "sqrt (of_int ?s) \<le> of_int d \<longleftrightarrow> of_int ?s \<le> (of_int d :: real)\<^sup>2"
      using True by (metis of_int_0_le_iff real_sqrt_le_iff real_sqrt_abs abs_of_nonneg)
    also have "\<dots> \<longleftrightarrow> ?s \<le> d\<^sup>2"
      by (metis of_int_le_iff of_int_power)
    finally show ?thesis using True
      by (simp add: areEntitiesInVicinity_def distance_def getPosition_def)
  next
    case False
    have "0 \<le> sqrt (of_int ?s)" using s0 by simp
    moreover have "(of_int d :: real) < 0" using False by simp
    ultimately have "\<not> sqrt (of_int ?s) \<le> of_int d" by linarith
    then show ?thesis using False
      by (simp add: areEntitiesInVicinity_def distance_def getPosition_def)
  qed
qed

lemma c_div_abs: "a \<noteq> 0 \<Longrightarrow> c_div a \<bar>a\<bar> = sgn a"
  by (simp add: c_div_def sgn_if)

lemma monsterDelta_sgn:
  "monsterDelta pl monster =
     (if (x (getPosition pl) - x (getPosition monster))\<^sup>2
           + (y (getPosition pl) - y (getPosition monster))\<^sup>2 \<le> 100
      then (sgn (x (getPosition pl) - x (getPosition monster)),
            sgn (y (getPosition pl) - y (getPosition monster)))
      else (1, 1))"
  by (simp add: monsterDelta_def areEntitiesInVicinity_squares Let_def c_div_abs getPosition_def)

lemma monsterStep_position:
  "getPosition (monsterStep mi g monster) =
     (let pl = getPosition (player g); mo = getPosition monster;
          target = (if (x pl - x mo)\<^sup>2 + (y pl - y mo)\<^sup>2 \<le> 100
                    then \<lparr>x = x mo + sgn (x pl - x mo), y = y mo + sgn (y pl - y mo)\<rparr>
                    else \<lparr>x = x mo + 1, y = y mo + 1\<rparr>)
      in if isPositionFree mi (map_h g) target then target else mo)"
  by (simp add: monsterStep_def monsterDelta_sgn updateEntityPosition_def Let_def
      getPosition_def setPosition_def move_def)

section \<open>The monsters' turn: who moves and who fights\<close>

lemma updatePositions_loop_pass:
  "\<forall>p\<in>set ms. \<not> lands mi g p \<Longrightarrow>
     updatePositions_loop mi rnd g visited (ms @ rest)
       = updatePositions_loop mi rnd g (visited @ map (monsterStep mi g) ms) rest"
  by (induction ms arbitrary: visited) (simp_all add: lands_def Let_def)

lemma updatePositions_loop_fight:
  "lands mi g m \<Longrightarrow>
     updatePositions_loop mi rnd g visited (m # rest)
       = fight rnd (g\<lparr>monsters := visited @ monsterStep mi g m # rest\<rparr>)
           (MonsterAttacks (length visited))"
  by (simp add: lands_def Let_def)

lemma updatePositions_split:
  assumes "monsters g = pre @ rest" and "\<forall>p\<in>set pre. \<not> lands mi g p"
  shows "updatePositions mi rnd g
       = updatePositions_loop mi rnd g (map (monsterStep mi g) pre) rest"
  using updatePositions_loop_pass [OF assms(2), of rnd "[]" rest] assms(1)
  by (simp add: updatePositions_def)

lemma fight_MonsterAttacks_Returned:
  assumes "fight rnd g (MonsterAttacks i) = Some (Returned g')"
  shows "\<exists>h hp k. \<not> isAlive ((monsters g ! i)\<lparr>health := h\<rparr>) \<and>
      g' = g\<lparr>player := (player g)\<lparr>health := hp, exp_points := exp_points (player g) + 10\<rparr>,
             monsters := filter isAlive ((monsters g)[i := (monsters g ! i)\<lparr>health := h\<rparr>]),
             rand_calls := k\<rparr>"
proof -
  from assms obtain a d k where
    lp: "fight_loop rnd (rand_calls g) (monsters g ! i) (player g) = Some (a, d, k)"
    and fe: "fight_end (g\<lparr>player := d, monsters := (monsters g)[i := a], rand_calls := k\<rparr>)
              = Returned g'"
    by (auto simp: fight_def split: option.splits)
  from fight_loop_health_only [OF lp]
  have a: "a = (monsters g ! i)\<lparr>health := health a\<rparr>"
    and d: "d = (player g)\<lparr>health := health d\<rparr>" by simp_all
  from fe have alive: "isAlive d"
    by (auto simp: fight_end_def gameOver_def split: if_splits)
  with fight_loop_some_dead [OF lp] have "\<not> isAlive a" by simp
  with a have dead: "\<not> isAlive ((monsters g ! i)\<lparr>health := health a\<rparr>)" by simp
  from fe have "g' = g\<lparr>player := setExp d (getExp d + 10),
       monsters := filter isAlive ((monsters g)[i := a]), rand_calls := k\<rparr>"
    by (auto simp: fight_end_def gameOver_def split: if_splits)
  then have "g' = g\<lparr>player := (player g)\<lparr>health := health d,
                          exp_points := exp_points (player g) + 10\<rparr>,
       monsters := filter isAlive ((monsters g)[i := (monsters g ! i)\<lparr>health := health a\<rparr>]),
       rand_calls := k\<rparr>"
    using a d by (metis setExp_def getExp_def Player.select_convs(1) Entity.update_convs(3)
        Player.surjective)
  with dead show ?thesis by blast
qed

text \<open>
  C6, as the claim states it, fails: the loop stops at the first monster that ends on
  the player's cell. In the arena the goblin steps onto the player and fights; the orc
  behind it in the roster is two cells from the player, the cell towards the player is
  free, and the orc is where it was when the turn is over.
\<close>

theorem updatePositions_counterexample:
  "monsters arena = [gob, orc]
   \<and> areEntitiesInVicinity (player arena) orc 10
   \<and> monsterDelta (player arena) orc = (- 1, 0)
   \<and> getPosition orc = \<lparr>x = 7, y = 5\<rparr>
   \<and> isPositionFree room (map_h arena) \<lparr>x = 6, y = 5\<rparr>
   \<and> updatePositions room allHit arena = Some (Returned arenaAfter)
   \<and> map getPosition (monsters arenaAfter) = [\<lparr>x = 7, y = 5\<rparr>]"
proof -
  have "monsters arena = [gob, orc]" by (simp add: arena_def)
  moreover have "areEntitiesInVicinity (player arena) orc 10" by code_simp
  moreover have "monsterDelta (player arena) orc = (- 1, 0)" by code_simp
  moreover have "getPosition orc = \<lparr>x = 7, y = 5\<rparr>" by code_simp
  moreover have "isPositionFree room (map_h arena) \<lparr>x = 6, y = 5\<rparr>" by code_simp
  moreover have "updatePositions room allHit arena = Some (Returned arenaAfter)" by code_simp
  moreover have "map getPosition (monsters arenaAfter) = [\<lparr>x = 7, y = 5\<rparr>]" by code_simp
  ultimately show ?thesis by blast
qed

text \<open>
  C6, amended. In a turn's monster update every monster up to and including the first
  one that ends its step on the player's cell is stepped once through
  \<^verbatim>\<open>updateEntityPosition\<close>: by the sign of the player's offset from it in each
  coordinate when its Euclidean distance to the player is at most 10, by (1, 1)
  otherwise, staying where it is when the cell so reached is not free. When no monster
  ends on the player's cell these are all the monsters of the roster; otherwise the
  fight starts with the monsters behind the fighting one not moved.
\<close>

theorem updatePositions_steps:
  "getPosition (monsterStep mi g monster) =
     (let pl = getPosition (player g); mo = getPosition monster;
          target = (if (x pl - x mo)\<^sup>2 + (y pl - y mo)\<^sup>2 \<le> 100
                    then \<lparr>x = x mo + sgn (x pl - x mo), y = y mo + sgn (y pl - y mo)\<rparr>
                    else \<lparr>x = x mo + 1, y = y mo + 1\<rparr>)
      in if isPositionFree mi (map_h g) target then target else mo)
   \<and> ((\<forall>p\<in>set (monsters g). \<not> lands mi g p) \<longrightarrow>
        updatePositions mi rnd g
          = Some (Returned (g\<lparr>monsters := map (monsterStep mi g) (monsters g)\<rparr>)))
   \<and> (\<forall>pre m rest.
         monsters g = pre @ m # rest \<and> (\<forall>p\<in>set pre. \<not> lands mi g p) \<and> lands mi g m \<longrightarrow>
         updatePositions mi rnd g
           = fight rnd
               (g\<lparr>monsters := map (monsterStep mi g) pre @ monsterStep mi g m # rest\<rparr>)
               (MonsterAttacks (length pre)))"
proof (intro conjI impI allI)
  show "getPosition (monsterStep mi g monster) =
     (let pl = getPosition (player g); mo = getPosition monster;
          target = (if (x pl - x mo)\<^sup>2 + (y pl - y mo)\<^sup>2 \<le> 100
                    then \<lparr>x = x mo + sgn (x pl - x mo), y = y mo + sgn (y pl - y mo)\<rparr>
                    else \<lparr>x = x mo + 1, y = y mo + 1\<rparr>)
      in if isPositionFree mi (map_h g) target then target else mo)"
    by (rule monsterStep_position)
next
  assume "\<forall>p\<in>set (monsters g). \<not> lands mi g p"
  from updatePositions_split [of g "monsters g" "[]", OF _ this, of rnd]
  show "updatePositions mi rnd g
          = Some (Returned (g\<lparr>monsters := map (monsterStep mi g) (monsters g)\<rparr>))"
    by simp
next
  fix pre m rest
  assume a: "monsters g = pre @ m # rest \<and> (\<forall>p\<in>set pre. \<not> lands mi g p) \<and> lands mi g m"
  have "updatePositions mi rnd g
          = updatePositions_loop mi rnd g (map (monsterStep mi g) pre) (m # rest)"
    using a by (simp add: updatePositions_split)
  also have "\<dots> = fight rnd
               (g\<lparr>monsters := map (monsterStep mi g) pre @ monsterStep mi g m # rest\<rparr>)
               (MonsterAttacks (length pre))"
    using a by (simp only: updatePositions_loop_fight length_map)
  finally show "updatePositions mi rnd g
           = fight rnd
               (g\<lparr>monsters := map (monsterStep mi g) pre @ monsterStep mi g m # rest\<rparr>)
               (MonsterAttacks (length pre))" .
qed

text \<open>
  The patrol: the orc closes in, the dragon drifts diagonally, the troll is stuck in
  its corner. The crowd: the dragon has drifted when the goblin starts the fight.
\<close>

theorem updatePositions_steps_witness:
  "\<not> lands room patrol orc \<and> \<not> lands room patrol dragon \<and> \<not> lands room patrol troll
   \<and> updatePositions room allHit patrol
       = Some (Returned (patrol\<lparr>monsters := map (monsterStep room patrol) [orc, dragon, troll]\<rparr>))
   \<and> map getPosition (map (monsterStep room patrol) [orc, dragon, troll])
       = [\<lparr>x = 6, y = 5\<rparr>, \<lparr>x = 31, y = 6\<rparr>, \<lparr>x = 39, y = 19\<rparr>]
   \<and> monsters crowd = [dragon] @ gob # [orc]
   \<and> \<not> lands room crowd dragon \<and> lands room crowd gob
   \<and> updatePositions room allHit crowd
       = fight allHit (crowd\<lparr>monsters := [monsterStep room crowd dragon, monsterStep room crowd gob, orc]\<rparr>)
           (MonsterAttacks 1)"
proof -
  have l: "\<not> lands room patrol orc" "\<not> lands room patrol dragon" "\<not> lands room patrol troll"
    by code_simp+
  have ms: "monsters patrol = [orc, dragon, troll]" by (simp add: patrol_def)
  have all: "\<forall>p\<in>set (monsters patrol). \<not> lands room patrol p" using l ms by simp
  have pos: "map getPosition (map (monsterStep room patrol) [orc, dragon, troll])
       = [\<lparr>x = 6, y = 5\<rparr>, \<lparr>x = 31, y = 6\<rparr>, \<lparr>x = 39, y = 19\<rparr>]"
    by code_simp
  have m: "monsters crowd = [dragon] @ gob # [orc]" by (simp add: crowd_def)
  have d: "\<not> lands room crowd dragon" by code_simp
  have g: "lands room crowd gob" by code_simp
  have c: "monsters crowd = [dragon] @ gob # [orc] \<and> (\<forall>p\<in>set [dragon]. \<not> lands room crowd p)
      \<and> lands room crowd gob"
    using m d g by simp
  have 1: "updatePositions room allHit patrol
       = Some (Returned (patrol\<lparr>monsters := map (monsterStep room patrol) [orc, dragon, troll]\<rparr>))"
    using updatePositions_steps [of room patrol orc allHit, THEN conjunct2, THEN conjunct1,
        THEN mp, OF all]
    by (simp only: ms)
  have 2: "updatePositions room allHit crowd
       = fight allHit (crowd\<lparr>monsters := [monsterStep room crowd dragon, monsterStep room crowd gob, orc]\<rparr>)
           (MonsterAttacks 1)"
    using updatePositions_steps [of room crowd orc allHit, THEN conjunct2, THEN conjunct2,
        rule_format, of "[dragon]" gob "[orc]", OF c]
    by simp
  from l 1 pos m d g 2 show ?thesis by blast
qed

text \<open>
  C10. \<^verbatim>\<open>Game::updatePositions\<close> runs at most one fight: when a monster is the first
  of the roster to share the player's cell after its step, the call is that one fight,
  started with the monsters behind it in the roster not yet stepped. When the call
  returns, the roster is the monsters before the fighting one, stepped, followed by
  the monsters behind it as they were before the turn (the fighting monster and any
  other dead one are erased), and the player has gained the 10 experience points of
  one fight and has not moved.
\<close>

theorem updatePositions_one_fight:
  assumes "monsters g = pre @ m # rest"
    and "\<forall>p\<in>set pre. \<not> lands mi g p" and "lands mi g m"
  shows "updatePositions mi rnd g
       = fight rnd (g\<lparr>monsters := map (monsterStep mi g) pre @ monsterStep mi g m # rest\<rparr>)
           (MonsterAttacks (length pre))
    \<and> (\<forall>g'. updatePositions mi rnd g = Some (Returned g') \<longrightarrow>
          monsters g' = filter isAlive (map (monsterStep mi g) pre) @ filter isAlive rest
          \<and> getExp (player g') = getExp (player g) + 10
          \<and> getPosition (player g') = getPosition (player g))"
proof -
  let ?g = "g\<lparr>monsters := map (monsterStep mi g) pre @ monsterStep mi g m # rest\<rparr>"
  have "updatePositions mi rnd g
          = updatePositions_loop mi rnd g (map (monsterStep mi g) pre) (m # rest)"
    by (rule updatePositions_split [OF assms(1,2)])
  also have "\<dots> = fight rnd ?g (MonsterAttacks (length pre))"
    by (simp only: updatePositions_loop_fight [OF assms(3)] length_map)
  finally have eq: "updatePositions mi rnd g = fight rnd ?g (MonsterAttacks (length pre))" .
  have "monsters g' = filter isAlive (map (monsterStep mi g) pre) @ filter isAlive rest
          \<and> getExp (player g') = getExp (player g) + 10
          \<and> getPosition (player g') = getPosition (player g)"
    if "updatePositions mi rnd g = Some (Returned g')" for g'
  proof -
    from that eq have "fight rnd ?g (MonsterAttacks (length pre)) = Some (Returned g')"
      by simp
    from fight_MonsterAttacks_Returned [OF this] obtain h hp k where
      dead: "\<not> isAlive ((monsters ?g ! length pre)\<lparr>health := h\<rparr>)" and
      g': "g' = ?g\<lparr>player := (player ?g)\<lparr>health := hp, exp_points := exp_points (player ?g) + 10\<rparr>,
             monsters := filter isAlive ((monsters ?g)[length pre := (monsters ?g ! length pre)\<lparr>health := h\<rparr>]),
             rand_calls := k\<rparr>"
      by blast
    have nth: "(map (monsterStep mi g) pre @ monsterStep mi g m # rest) ! length pre
                 = monsterStep mi g m"
      by (metis length_map nth_append_length)
    have upd: "(map (monsterStep mi g) pre @ monsterStep mi g m # rest)
                 [length pre := (monsterStep mi g m)\<lparr>health := h\<rparr>]
               = map (monsterStep mi g) pre @ (monsterStep mi g m)\<lparr>health := h\<rparr> # rest"
      by (metis length_map list_update_length)
    have gone: "\<not> isAlive ((monsterStep mi g m)\<lparr>health := h\<rparr>)"
      using dead nth by simp
    have "monsters g' = filter isAlive (map (monsterStep mi g) pre) @ filter isAlive rest"
      using g' nth upd gone by simp
    moreover have "getExp (player g') = getExp (player g) + 10"
      using g' by (simp add: getExp_def)
    moreover have "getPosition (player g') = getPosition (player g)"
      using g' by (simp add: getPosition_def)
    ultimately show ?thesis by blast
  qed
  with eq show ?thesis by blast
qed

text \<open>The crowd: the dragon has moved, the goblin has fought and is gone, the orc
  has not moved.\<close>

theorem updatePositions_one_fight_witness:
  "monsters crowd = [dragon] @ gob # [orc]
   \<and> \<not> lands room crowd dragon \<and> lands room crowd gob
   \<and> updatePositions room allHit crowd = Some (Returned crowdAfter)
   \<and> monsters crowdAfter = [monsterStep room crowd dragon, orc]
   \<and> getExp (player crowdAfter) = getExp (player crowd) + 10"
proof -
  have m: "monsters crowd = [dragon] @ gob # [orc]" by (simp add: crowd_def)
  have d: "\<not> lands room crowd dragon" by code_simp
  then have pre: "\<forall>p\<in>set [dragon]. \<not> lands room crowd p" by simp
  have l: "lands room crowd gob" by code_simp
  have run: "updatePositions room allHit crowd = Some (Returned crowdAfter)" by code_simp
  have after: "monsters crowdAfter = [monsterStep room crowd dragon, orc]" by code_simp
  from updatePositions_one_fight [OF m pre l, of allHit] run
  have "getExp (player crowdAfter) = getExp (player crowd) + 10" by simp
  with m d l run after show ?thesis by blast
qed

section \<open>Level loading: the roster and the level counter\<close>

lemma createMonster_loop_drawn:
  "createMonster_loop mi n builder g
     = g\<lparr>map_h := snd (drawn mi n (map_h g)),
         monsters := monsters g @ map builder (fst (drawn mi n (map_h g)))\<rparr>"
proof (induction n arbitrary: g)
  case 0
  then show ?case by simp
next
  case (Suc n)
  show ?case
    by (simp add: Suc.IH split_beta)
qed

lemma length_drawn: "length (fst (drawn mi n m)) = n"
  by (induction n arbitrary: m) (simp_all add: split_beta)

lemma drawn_add:
  "drawn mi (a + b) m
     = (fst (drawn mi a m) @ fst (drawn mi b (snd (drawn mi a m))),
        snd (drawn mi b (snd (drawn mi a m))))"
  by (induction a arbitrary: m) (simp_all add: split_beta)

lemma species_newMonster: "species (newMonster tbl s p) = s"
  by (simp add: newMonster_def)

lemma position_newMonster: "getPosition (newMonster tbl s p) = p"
  by (simp add: newMonster_def getPosition_def)

lemma c_div_nonneg: "0 \<le> a \<Longrightarrow> 0 < b \<Longrightarrow> c_div a b = a div b"
  by (simp add: c_div_def sgn_if)


lemma initalizeMonsters_roster:
  fixes count :: int
  defines "n1 \<equiv> nat (c_div count 2)" and "n2 \<equiv> nat (c_div count 3)"
    and "n3 \<equiv> nat (c_div count 6)"
    and "n4 \<equiv> nat (count - c_div count 2 - c_div count 3 - c_div count 6)"
  shows "map species (monsters (initalizeMonsters mi tbl count g))
           = replicate n1 Goblin @ replicate n2 Orc @ replicate n3 Troll @ replicate n4 Dragon"
    and "map getPosition (monsters (initalizeMonsters mi tbl count g))
           = fst (drawn mi (n1 + n2 + n3 + n4) (map_h g))"
    and "map_h (initalizeMonsters mi tbl count g)
           = snd (drawn mi (n1 + n2 + n3 + n4) (map_h g))"
proof -
  have sp: "map (species \<circ> newMonster tbl s) ps = replicate (length ps) s" for s ps
    by (induction ps) (simp_all add: species_newMonster)
  have ps: "map (getPosition \<circ> newMonster tbl s) ps = ps" for s ps
    by (induction ps) (simp_all add: position_newMonster)
  show "map species (monsters (initalizeMonsters mi tbl count g))
           = replicate n1 Goblin @ replicate n2 Orc @ replicate n3 Troll @ replicate n4 Dragon"
    unfolding n1_def n2_def n3_def n4_def
    by (simp add: initalizeMonsters_def Let_def createMonster_def createMonster_loop_drawn
        sp length_drawn)
  show "map getPosition (monsters (initalizeMonsters mi tbl count g))
           = fst (drawn mi (n1 + n2 + n3 + n4) (map_h g))"
    unfolding n1_def n2_def n3_def n4_def
    by (simp add: initalizeMonsters_def Let_def createMonster_def createMonster_loop_drawn
        ps drawn_add)
  show "map_h (initalizeMonsters mi tbl count g)
           = snd (drawn mi (n1 + n2 + n3 + n4) (map_h g))"
    unfolding n1_def n2_def n3_def n4_def
    by (simp add: initalizeMonsters_def Let_def createMonster_def createMonster_loop_drawn
        drawn_add)
qed

lemma thirds_le:
  fixes n :: int
  assumes "0 \<le> n"
  shows "n div 2 + n div 3 + n div 6 \<le> n"
proof -
  have "2 * (n div 2) \<le> n"
    using mult_div_mod_eq [of 2 n] pos_mod_sign [of 2 n] by linarith
  moreover have "3 * (n div 3) \<le> n"
    using mult_div_mod_eq [of 3 n] pos_mod_sign [of 3 n] by linarith
  moreover have "6 * (n div 6) \<le> n"
    using mult_div_mod_eq [of 6 n] pos_mod_sign [of 6 n] by linarith
  ultimately show ?thesis by linarith
qed

lemma roster_total:
  "nat (c_div count 2) + nat (c_div count 3) + nat (c_div count 6)
     + nat (count - c_div count 2 - c_div count 3 - c_div count 6) = nat count"
proof (cases "0 \<le> count")
  case True
  define a b c where "a = count div 2" and "b = count div 3" and "c = count div 6"
  have eq: "c_div count 2 = a" "c_div count 3 = b" "c_div count 6 = c"
    using True by (simp_all add: c_div_nonneg a_def b_def c_def)
  have nn: "0 \<le> a" "0 \<le> b" "0 \<le> c"
    using True by (simp_all add: a_def b_def c_def pos_imp_zdiv_nonneg_iff)
  have le: "a + b + c \<le> count"
    using thirds_le [OF True] by (simp add: a_def b_def c_def)
  have "int (nat a + nat b + nat c + nat (count - a - b - c)) = int (nat count)"
    using nn le True by simp
  then show ?thesis unfolding eq by (simp only: of_nat_eq_iff)
next
  case False
  then have n: "0 \<le> - count" by simp
  define a b c where "a = (- count) div 2" and "b = (- count) div 3" and "c = (- count) div 6"
  from False have eq: "c_div count 2 = - a" "c_div count 3 = - b" "c_div count 6 = - c"
    by (simp_all add: c_div_def sgn_if a_def b_def c_def)
  have nn: "0 \<le> a" "0 \<le> b" "0 \<le> c"
    using n by (simp_all add: a_def b_def c_def pos_imp_zdiv_nonneg_iff)
  have le: "a + b + c \<le> - count"
    using thirds_le [OF n] by (simp add: a_def b_def c_def)
  have "nat (- a) = 0" "nat (- b) = 0" "nat (- c) = 0" "nat (count + a + b + c) = 0"
    "nat count = 0"
    using nn le False by simp_all
  then show ?thesis unfolding eq by simp
qed

text \<open>
  C5. \<^verbatim>\<open>Game::initalizeMonsters\<close> called with 12 fills the roster with 6 goblins,
  4 orcs, 2 trolls and no dragon, in this order; called with any \<open>count\<close> it creates
  \<open>count / 2\<close> goblins, \<open>count / 3\<close> orcs, \<open>count / 6\<close> trolls (C++ division) and
  the remainder as dragons, \<open>count\<close> monsters in all (none for a negative \<open>count\<close>),
  the monsters standing, in roster order, on the cells the map hands out on successive
  calls of \<open>randomFreePosition\<close>.
\<close>

theorem initalizeMonsters_population:
  "map species (monsters (initalizeMonsters mi tbl 12 g))
     = replicate 6 Goblin @ replicate 4 Orc @ replicate 2 Troll @ replicate 0 Dragon
   \<and> map species (monsters (initalizeMonsters mi tbl count g))
     = replicate (nat (c_div count 2)) Goblin @ replicate (nat (c_div count 3)) Orc
       @ replicate (nat (c_div count 6)) Troll
       @ replicate (nat (count - c_div count 2 - c_div count 3 - c_div count 6)) Dragon
   \<and> length (monsters (initalizeMonsters mi tbl count g)) = nat count
   \<and> map getPosition (monsters (initalizeMonsters mi tbl count g))
     = fst (drawn mi (nat count) (map_h g))
   \<and> map_h (initalizeMonsters mi tbl count g) = snd (drawn mi (nat count) (map_h g))"
proof -
  have twelve: "nat (c_div 12 2) = 6" "nat (c_div 12 3) = 4" "nat (c_div 12 6) = 2"
    "nat (12 - c_div 12 2 - c_div 12 3 - c_div 12 6) = 0"
    by (simp_all add: c_div_def)
  have 1: "map species (monsters (initalizeMonsters mi tbl 12 g))
     = replicate 6 Goblin @ replicate 4 Orc @ replicate 2 Troll @ replicate 0 Dragon"
    using initalizeMonsters_roster(1) [of mi tbl 12 g] by (simp only: twelve)
  have 2: "map getPosition (monsters (initalizeMonsters mi tbl count g))
     = fst (drawn mi (nat count) (map_h g))"
    using initalizeMonsters_roster(2) [of mi tbl count g] by (simp only: roster_total)
  have 3: "map_h (initalizeMonsters mi tbl count g) = snd (drawn mi (nat count) (map_h g))"
    using initalizeMonsters_roster(3) [of mi tbl count g] by (simp only: roster_total)
  have "length (map getPosition (monsters (initalizeMonsters mi tbl count g))) = nat count"
    by (simp only: 2 length_drawn)
  then have 4: "length (monsters (initalizeMonsters mi tbl count g)) = nat count" by simp
  note 5 = initalizeMonsters_roster(1) [of mi tbl count g]
  show ?thesis by (intro conjI 1 5 4 2 3)
qed

text \<open>Twelve monsters in the room: the first twelve cells of its first row.\<close>

theorem initalizeMonsters_population_witness:
  "map species (monsters (initalizeMonsters room stats 12 arena))
     = [Goblin, Goblin, Goblin, Goblin, Goblin, Goblin, Orc, Orc, Orc, Orc, Troll, Troll]
   \<and> map getPosition (monsters (initalizeMonsters room stats 12 arena))
     = [\<lparr>x = 0, y = 0\<rparr>, \<lparr>x = 1, y = 0\<rparr>, \<lparr>x = 2, y = 0\<rparr>, \<lparr>x = 3, y = 0\<rparr>,
        \<lparr>x = 4, y = 0\<rparr>, \<lparr>x = 5, y = 0\<rparr>, \<lparr>x = 6, y = 0\<rparr>, \<lparr>x = 7, y = 0\<rparr>,
        \<lparr>x = 8, y = 0\<rparr>, \<lparr>x = 9, y = 0\<rparr>, \<lparr>x = 10, y = 0\<rparr>, \<lparr>x = 11, y = 0\<rparr>]"
proof -
  have d: "fst (drawn room (nat 12) (map_h arena))
     = [\<lparr>x = 0, y = 0\<rparr>, \<lparr>x = 1, y = 0\<rparr>, \<lparr>x = 2, y = 0\<rparr>, \<lparr>x = 3, y = 0\<rparr>,
        \<lparr>x = 4, y = 0\<rparr>, \<lparr>x = 5, y = 0\<rparr>, \<lparr>x = 6, y = 0\<rparr>, \<lparr>x = 7, y = 0\<rparr>,
        \<lparr>x = 8, y = 0\<rparr>, \<lparr>x = 9, y = 0\<rparr>, \<lparr>x = 10, y = 0\<rparr>, \<lparr>x = 11, y = 0\<rparr>]"
    by code_simp
  have r: "replicate 6 Goblin @ replicate 4 Orc @ replicate 2 Troll @ replicate 0 Dragon
     = [Goblin, Goblin, Goblin, Goblin, Goblin, Goblin, Orc, Orc, Orc, Orc, Troll, Troll]"
    by code_simp
  note T = initalizeMonsters_population [of room stats arena 12]
  have 1: "map species (monsters (initalizeMonsters room stats 12 arena))
     = [Goblin, Goblin, Goblin, Goblin, Goblin, Goblin, Orc, Orc, Orc, Orc, Troll, Troll]"
    using T [THEN conjunct1] by (simp only: r)
  have 2: "map getPosition (monsters (initalizeMonsters room stats 12 arena))
     = fst (drawn room (nat 12) (map_h arena))"
    using T [THEN conjunct2, THEN conjunct2, THEN conjunct2, THEN conjunct1] .
  from 1 2 show ?thesis by (simp only: d)
qed

lemma level_initalizeMonsters: "level (initalizeMonsters mi tbl count g) = level g"
  by (simp add: initalizeMonsters_def Let_def createMonster_def createMonster_loop_drawn)

lemma length_initalizeMonsters:
  "length (monsters (initalizeMonsters mi tbl count g)) = nat count"
proof -
  have "length (map species (monsters (initalizeMonsters mi tbl count g))) = nat count"
    using roster_total [of count] by (simp add: initalizeMonsters_roster(1))
  then show ?thesis by simp
qed

lemma level_loadLevel: "level (loadLevel mi tbl monsterCount g) = level g"
  by (simp add: loadLevel_def Let_def level_initalizeMonsters)

lemma length_loadLevel:
  "length (monsters (loadLevel mi tbl monsterCount g))
     = nat (levelMonsterCount monsterCount (level g))"
  by (simp add: loadLevel_def Let_def length_initalizeMonsters)

lemma levelMonsterCount_ground:
  assumes "lvl \<le> 0" and "0 \<le> monsterCount"
  shows "levelMonsterCount monsterCount lvl = monsterCount"
proof -
  let ?q = "power_int (2 :: rat) (lvl - 1)"
  have pos: "0 < ?q" by simp
  have "?q < power_int 2 0"
    using assms(1) by (intro power_int_strict_increasing) simp_all
  then have lt: "?q < 1" by simp
  have "\<lfloor>of_int monsterCount + ?q\<rfloor> = monsterCount"
    using pos lt by (intro floor_unique) simp_all
  moreover have "0 \<le> of_int monsterCount + ?q"
    using assms(2) pos by (simp add: add_nonneg_nonneg)
  ultimately show ?thesis by (simp add: levelMonsterCount_def c_trunc_def)
qed

text \<open>
  C7 does not hold of the code: \<^verbatim>\<open>Game::loadLevel\<close> computes the monster count from
  \<open>level\<close> but neither it nor any other member of \<^verbatim>\<open>Game\<close> assigns \<open>level\<close>. The
  counter after a level load, and after the level transition of the main loop, is the
  counter before it, and the roster has the size computed from the old value; two loads
  of the room with \<^verbatim>\<open>monsterCount\<close> 10 both run at level 0 with 10 monsters.
\<close>

theorem loadLevel_level_unchanged:
  "level (loadLevel mi tbl monsterCount g) = level g
   \<and> level (levelTransition mi tbl monsterCount g) = level g
   \<and> length (monsters (loadLevel mi tbl monsterCount g))
       = nat (levelMonsterCount monsterCount (level g))
   \<and> level (loadLevel room stats 10 (loadLevel room stats 10 arena)) = 0
   \<and> length (monsters (loadLevel room stats 10 arena)) = 10
   \<and> length (monsters (loadLevel room stats 10 (loadLevel room stats 10 arena))) = 10"
proof -
  have 1: "level (loadLevel mi tbl monsterCount g) = level g"
    by (rule level_loadLevel)
  have 2: "level (levelTransition mi tbl monsterCount g) = level g"
    by (simp add: levelTransition_def 1)
  have 3: "length (monsters (loadLevel mi tbl monsterCount g))
       = nat (levelMonsterCount monsterCount (level g))"
    by (rule length_loadLevel)
  have l0: "level arena = 0" by (simp add: arena_def)
  have 4: "level (loadLevel room stats 10 (loadLevel room stats 10 arena)) = 0"
    by (simp only: level_loadLevel l0)
  have c: "levelMonsterCount 10 0 = 10"
    by (rule levelMonsterCount_ground) simp_all
  have 5: "length (monsters (loadLevel room stats 10 arena)) = 10"
    by (simp add: length_loadLevel l0 c)
  have 6: "length (monsters (loadLevel room stats 10 (loadLevel room stats 10 arena))) = 10"
    by (simp add: length_loadLevel level_loadLevel l0 c)
  show ?thesis by (intro conjI 1 2 3 4 5 6)
qed

section \<open>Treasure: the bonus\<close>









end
